theory Spec2Isabelle
  imports Main "HOL-Library.Word" "HOL-Library.Signed_Division" "HOL-Library.Sublist"
    "HOL-Library.Multiset"
begin

section \<open>JavaScript strings\<close>

text \<open>
  A JavaScript string is a sequence of 16-bit UTF-16 code units. \<open>===\<close> on two strings
  compares the sequences, a regular expression without the \<open>u\<close> flag matches code unit
  by code unit, and \<open>split\<close> and \<open>trim\<close> work on code units as well.
  \<open>js\<close> writes an ASCII literal of the source as such a sequence.
\<close>

type_synonym code_unit = "16 word"
type_synonym jsstring = "code_unit list"

definition js :: "string \<Rightarrow> jsstring" where
  "js s = map of_char s"

text \<open>
  \<open>String.prototype.toLowerCase\<close> belongs to the language runtime (it follows the Unicode
  case tables and is not character-wise outside ASCII), so the functions below take it as
  a parameter. \<open>ascii_toLowerCase\<close> is what it computes on strings of ASCII code units;
  it instantiates the parameter where a concrete input is evaluated.
\<close>

definition ascii_toLowerCase :: "jsstring \<Rightarrow> jsstring" where
  "ascii_toLowerCase s = map (\<lambda>c. if 0x41 \<le> c \<and> c \<le> 0x5A then c + 0x20 else c) s"

section \<open>String.prototype.split, Array.prototype.join, String.prototype.trim\<close>

definition newline :: code_unit where
  "newline = 0x0A"

text \<open>
  \<open>s.split(sep)\<close> for a separator of one code unit: the pieces between the
  occurrences of the separator, so the result is never empty and the empty string gives
  one empty piece (the first branch of the \<open>case\<close> is never taken).
\<close>

fun split :: "code_unit \<Rightarrow> jsstring \<Rightarrow> jsstring list" where
  "split sep [] = [[]]"
| "split sep (c # cs) =
     (if c = sep then [] # split sep cs
      else (case split sep cs of
              [] \<Rightarrow> [[c]]
            | l # ls \<Rightarrow> (c # l) # ls))"

fun join :: "code_unit \<Rightarrow> jsstring list \<Rightarrow> jsstring" where
  "join sep [] = []"
| "join sep [l] = l"
| "join sep (l # ls) = l @ sep # join sep ls"

text \<open>
  The code units \<open>trim\<close> strips: the white space and line terminators of ECMAScript
  (TAB, LF, VT, FF, CR, SP, NBSP, the Unicode space separators, LS, PS, BOM).
\<close>

definition is_white_space :: "code_unit \<Rightarrow> bool" where
  "is_white_space c =
     (c \<in> {0x09, 0x0A, 0x0B, 0x0C, 0x0D, 0x20, 0xA0, 0x1680, 0x2028, 0x2029, 0x202F,
           0x205F, 0x3000, 0xFEFF}
      \<or> (0x2000 \<le> c \<and> c \<le> 0x200A))"

definition trim :: "jsstring \<Rightarrow> jsstring" where
  "trim s = rev (dropWhile is_white_space (rev (dropWhile is_white_space s)))"

section \<open>types.ts\<close>

record Destination =
  dest_id :: jsstring
  dest_name :: jsstring
  dest_region :: jsstring
  dest_image :: jsstring
  dest_season :: jsstring
  dest_description :: jsstring

record Package =
  pkg_id :: jsstring
  pkg_name :: jsstring
  pkg_price :: jsstring
  pkg_color :: jsstring
  pkg_accent :: jsstring
  pkg_features :: "jsstring list"

text \<open>\<open>travelers\<close> is a number; \<open>createBooking\<close> only copies it.\<close>

record BookingData =
  bk_name :: jsstring
  bk_phone :: jsstring
  bk_travelers :: int
  bk_date :: jsstring
  bk_package :: jsstring
  bk_notes :: jsstring

text \<open>
  \<open>select('*')\<close> answers with every column of a row, so a fetched destination or package
  carries its \<open>created_at\<close> column (a timestamp, here a number) besides the fields of the
  interface.
\<close>

record destination_row = Destination +
  dest_created_at :: int

record package_row = Package +
  pkg_created_at :: int

record User =
  usr_id :: jsstring
  usr_email :: "jsstring option"
  usr_username :: jsstring
  usr_full_name :: "jsstring option"
  usr_address :: "jsstring option"
  usr_phone :: "jsstring option"
  usr_role :: "jsstring option"

section \<open>services/authService.ts\<close>

text \<open>The character class \<open>[a-z0-9]\<close>.\<close>

definition is_lower_alnum :: "code_unit \<Rightarrow> bool" where
  "is_lower_alnum c = ((0x61 \<le> c \<and> c \<le> 0x7A) \<or> (0x30 \<le> c \<and> c \<le> 0x39))"

text \<open>
  \<open>s.replace(/[^a-z0-9]/g, '')\<close>: the scan visits every code unit once, from left to
  right; a code unit matched by the negated class is replaced by the empty string, any
  other one is copied.
\<close>

fun replace_non_alnum :: "jsstring \<Rightarrow> jsstring" where
  "replace_non_alnum [] = []"
| "replace_non_alnum (c # cs) =
     (if \<not> is_lower_alnum c then replace_non_alnum cs else c # replace_non_alnum cs)"

definition getEmailFromUsername :: "(jsstring \<Rightarrow> jsstring) \<Rightarrow> jsstring \<Rightarrow> jsstring" where
  "getEmailFromUsername toLowerCase username =
     replace_non_alnum (toLowerCase username) @ js ''@unexplore.com''"

record RegisterData =
  rd_username :: jsstring
  rd_password :: jsstring
  rd_full_name :: jsstring
  rd_address :: jsstring
  rd_phone :: jsstring

text \<open>The argument of \<open>supabase.auth.signUp\<close> and of \<open>supabase.auth.signInWithPassword\<close>.\<close>

record signUp_args =
  su_email :: jsstring
  su_password :: jsstring
  su_meta_username :: jsstring
  su_meta_full_name :: jsstring
  su_meta_address :: jsstring
  su_meta_phone :: jsstring

record signIn_args =
  si_email :: jsstring
  si_password :: jsstring

definition signUp_request :: "(jsstring \<Rightarrow> jsstring) \<Rightarrow> RegisterData \<Rightarrow> signUp_args" where
  "signUp_request toLowerCase data =
     \<lparr> su_email = getEmailFromUsername toLowerCase (rd_username data),
       su_password = rd_password data,
       su_meta_username = rd_username data,
       su_meta_full_name = rd_full_name data,
       su_meta_address = rd_address data,
       su_meta_phone = rd_phone data \<rparr>"

definition signIn_request :: "(jsstring \<Rightarrow> jsstring) \<Rightarrow> jsstring \<Rightarrow> jsstring \<Rightarrow> signIn_args" where
  "signIn_request toLowerCase username password =
     \<lparr> si_email = getEmailFromUsername toLowerCase username, si_password = password \<rparr>"

text \<open>
  What the auth service answers to a sign-up: an error, or the data with the created user's
  id (absent when no user was created) and whether a session came with it.
\<close>

record auth_data =
  ad_user :: "jsstring option"
  ad_session :: bool

datatype 'e signUp_error = AuthError 'e | NoUserCreated

record profile_row =
  pr_id :: jsstring
  pr_username :: jsstring
  pr_full_name :: jsstring
  pr_address :: jsstring
  pr_phone :: jsstring
  pr_role :: jsstring

text \<open>
  \<open>signUpUser\<close>: the auth service is the parameter \<open>auth\<close>. The result is what the
  function returns together with the profile rows it upserts (one, when a session is
  available at once; the outcome of that upsert does not change the result).
\<close>

definition signUpUser ::
  "(jsstring \<Rightarrow> jsstring) \<Rightarrow> (signUp_args \<Rightarrow> 'e + auth_data) \<Rightarrow> RegisterData
    \<Rightarrow> ('e signUp_error + auth_data) \<times> profile_row list" where
  "signUpUser toLowerCase auth data =
     (case auth (signUp_request toLowerCase data) of
        Inl authError \<Rightarrow> (Inl (AuthError authError), [])
      | Inr authData \<Rightarrow>
          (case ad_user authData of
             None \<Rightarrow> (Inl NoUserCreated, [])
           | Some uid \<Rightarrow>
               (Inr authData,
                if ad_session authData
                then [\<lparr> pr_id = uid, pr_username = rd_username data,
                        pr_full_name = rd_full_name data, pr_address = rd_address data,
                        pr_phone = rd_phone data, pr_role = js ''user'' \<rparr>]
                else [])))"

definition signInUser ::
  "(jsstring \<Rightarrow> jsstring) \<Rightarrow> (signIn_args \<Rightarrow> 'r) \<Rightarrow> jsstring \<Rightarrow> jsstring \<Rightarrow> 'r" where
  "signInUser toLowerCase auth username password =
     auth (signIn_request toLowerCase username password)"

section \<open>The hosted backend\<close>

text \<open>
  Every table lives in the hosted backend; the client only sends requests. One request
  ends in one of three ways: the backend performs it (\<open>Succeeds\<close>); it answers with an
  error, so the client library resolves to \<open>{data: null, error}\<close> and the table is as
  before (\<open>Fails\<close>); or the awaited call rejects and the \<open>catch\<close> block runs
  (\<open>Throws\<close>).
\<close>

datatype outcome = Succeeds | Fails | Throws

datatype 'a response = Failure | Success 'a

datatype 'a awaited = Rejected | Resolved 'a

section \<open>services/customerService.ts\<close>

record wishlist_row =
  wl_id :: jsstring
  wl_user_id :: jsstring
  wl_package_id :: jsstring

datatype wishlist_request =
    Select_single jsstring jsstring
  | Delete_eq_id jsstring
  | Insert_row jsstring jsstring

text \<open>The wishlist table and the requests sent to it, oldest first.\<close>

record wishlist_table =
  wl_rows :: "wishlist_row list"
  wl_requests :: "wishlist_request list"

definition wl_matches :: "jsstring \<Rightarrow> jsstring \<Rightarrow> wishlist_row \<Rightarrow> bool" where
  "wl_matches userId packageId r = (wl_user_id r = userId \<and> wl_package_id r = packageId)"

text \<open>
  \<open>.single()\<close> answers with the row when exactly one row matches, and with an error
  (and no data) when none or several do.
\<close>

definition single :: "'a list \<Rightarrow> 'a response" where
  "single rs = (case rs of [r] \<Rightarrow> Success r | _ \<Rightarrow> Failure)"

definition wl_select_single ::
  "outcome \<Rightarrow> jsstring \<Rightarrow> jsstring \<Rightarrow> wishlist_table
    \<Rightarrow> wishlist_row response awaited \<times> wishlist_table" where
  "wl_select_single oc userId packageId t =
     (let t' = t\<lparr>wl_requests := wl_requests t @ [Select_single userId packageId]\<rparr>
      in case oc of
           Throws \<Rightarrow> (Rejected, t')
         | Fails \<Rightarrow> (Resolved Failure, t')
         | Succeeds \<Rightarrow>
             (Resolved (single (filter (wl_matches userId packageId) (wl_rows t))), t'))"

definition wl_delete_eq_id ::
  "outcome \<Rightarrow> jsstring \<Rightarrow> wishlist_table \<Rightarrow> unit response awaited \<times> wishlist_table" where
  "wl_delete_eq_id oc i t =
     (let t' = t\<lparr>wl_requests := wl_requests t @ [Delete_eq_id i]\<rparr>
      in case oc of
           Throws \<Rightarrow> (Rejected, t')
         | Fails \<Rightarrow> (Resolved Failure, t')
         | Succeeds \<Rightarrow>
             (Resolved (Success ()),
              t'\<lparr>wl_rows := filter (\<lambda>r. wl_id r \<noteq> i) (wl_rows t)\<rparr>))"

text \<open>The database assigns the new row's id: \<open>new_id\<close>, a parameter.\<close>

definition wl_insert ::
  "(wishlist_row list \<Rightarrow> jsstring) \<Rightarrow> outcome \<Rightarrow> jsstring \<Rightarrow> jsstring \<Rightarrow> wishlist_table
    \<Rightarrow> unit response awaited \<times> wishlist_table" where
  "wl_insert new_id oc userId packageId t =
     (let t' = t\<lparr>wl_requests := wl_requests t @ [Insert_row userId packageId]\<rparr>
      in case oc of
           Throws \<Rightarrow> (Rejected, t')
         | Fails \<Rightarrow> (Resolved Failure, t')
         | Succeeds \<Rightarrow>
             (Resolved (Success ()),
              t'\<lparr>wl_rows := wl_rows t @
                   [\<lparr>wl_id = new_id (wl_rows t), wl_user_id = userId,
                     wl_package_id = packageId\<rparr>]\<rparr>))"

text \<open>
  \<open>toggleWishlist\<close>: \<open>rd\<close> is how the read ends and \<open>wr\<close> how the write ends. Only the
  read's \<open>data\<close> is looked at (\<open>existing\<close> is null on an error), the answers of the
  delete and of the insert are dropped, and a rejected call is caught and gives
  \<open>false\<close>.
\<close>

definition toggleWishlist ::
  "(wishlist_row list \<Rightarrow> jsstring) \<Rightarrow> outcome \<Rightarrow> outcome \<Rightarrow> jsstring \<Rightarrow> jsstring
    \<Rightarrow> wishlist_table \<Rightarrow> bool \<times> wishlist_table" where
  "toggleWishlist new_id rd wr userId packageId t =
     (case wl_select_single rd userId packageId t of
        (Rejected, t1) \<Rightarrow> (False, t1)
      | (Resolved existing, t1) \<Rightarrow>
          (case existing of
             Success row \<Rightarrow>
               (case wl_delete_eq_id wr (wl_id row) t1 of
                  (Rejected, t2) \<Rightarrow> (False, t2)
                | (Resolved _, t2) \<Rightarrow> (False, t2))
           | Failure \<Rightarrow>
               (case wl_insert new_id wr userId packageId t1 of
                  (Rejected, t2) \<Rightarrow> (False, t2)
                | (Resolved _, t2) \<Rightarrow> (True, t2))))"

text \<open>Membership: the table has a row for the pair.\<close>

definition in_wishlist :: "jsstring \<Rightarrow> jsstring \<Rightarrow> wishlist_table \<Rightarrow> bool" where
  "in_wishlist userId packageId t = list_ex (wl_matches userId packageId) (wl_rows t)"

section \<open>services/adminService.ts\<close>

definition AUTH_KEY :: jsstring where
  "AUTH_KEY = js ''unexplore_admin_session''"

record AdminBooking = BookingData +
  ab_id :: jsstring
  ab_created_at :: jsstring
  ab_status :: jsstring
  ab_user_id :: "jsstring option"
  ab_email :: "jsstring option"

definition checkAuth :: "jsstring \<Rightarrow> jsstring \<Rightarrow> bool" where
  "checkAuth u p = (u = js ''admin'' \<and> p = js ''himalayas123'')"

text \<open>The browser's \<open>localStorage\<close>: a map from keys to values.\<close>

type_synonym storage = "jsstring \<rightharpoonup> jsstring"

definition isAuthenticated :: "storage \<Rightarrow> bool" where
  "isAuthenticated localStorage = (localStorage AUTH_KEY = Some (js ''true''))"

definition login :: "storage \<Rightarrow> storage" where
  "login localStorage = localStorage(AUTH_KEY \<mapsto> js ''true'')"

definition logout :: "storage \<Rightarrow> storage" where
  "logout localStorage = localStorage(AUTH_KEY := None)"

text \<open>
  The record \<open>createBooking\<close> sends. \<open>user_id\<close> is there only when the caller passed a
  user id that is truthy (a non-empty string).
\<close>

record booking_payload =
  pl_name :: jsstring
  pl_phone :: jsstring
  pl_travelers :: int
  pl_date :: jsstring
  pl_package :: jsstring
  pl_notes :: jsstring
  pl_status :: jsstring
  pl_email :: jsstring
  pl_user_id :: "jsstring option"

text \<open>
  The bookings table: the rows, as the columns the client supplies, and the record arrays
  of the insert requests sent to it, oldest first.
\<close>

record bookings_table =
  bk_rows :: "booking_payload list"
  bk_inserts :: "booking_payload list list"

definition bookings_insert ::
  "outcome \<Rightarrow> booking_payload list \<Rightarrow> bookings_table
    \<Rightarrow> unit response awaited \<times> bookings_table" where
  "bookings_insert oc records t =
     (let t' = t\<lparr>bk_inserts := bk_inserts t @ [records]\<rparr>
      in case oc of
           Throws \<Rightarrow> (Rejected, t')
         | Fails \<Rightarrow> (Resolved Failure, t')
         | Succeeds \<Rightarrow> (Resolved (Success ()), t'\<lparr>bk_rows := bk_rows t @ records\<rparr>))"

text \<open>
  The input is any object with the fields of \<open>BookingData\<close>; whatever else it carries
  (a \<open>status\<close>, say) is not read.
\<close>

definition booking_payload_of :: "'a BookingData_scheme \<Rightarrow> jsstring option \<Rightarrow> booking_payload" where
  "booking_payload_of data userId =
     \<lparr> pl_name = bk_name data,
       pl_phone = bk_phone data,
       pl_travelers = bk_travelers data,
       pl_date = bk_date data,
       pl_package = bk_package data,
       pl_notes = bk_notes data,
       pl_status = js ''pending'',
       pl_email = js '''',
       pl_user_id = (case userId of
                       None \<Rightarrow> None
                     | Some i \<Rightarrow> if i \<noteq> [] then Some i else None) \<rparr>"

definition createBooking ::
  "outcome \<Rightarrow> 'a BookingData_scheme \<Rightarrow> jsstring option \<Rightarrow> bookings_table
    \<Rightarrow> bool \<times> bookings_table" where
  "createBooking oc data userId t =
     (case bookings_insert oc [booking_payload_of data userId] t of
        (Rejected, t') \<Rightarrow> (False, t')
      | (Resolved Failure, t') \<Rightarrow> (False, t')
      | (Resolved (Success _), t') \<Rightarrow> (True, t'))"

section \<open>services/destinationService.ts and services/packageService.ts\<close>

text \<open>
  \<open>select('*').order('created_at', {ascending})\<close> as the backend executes it: the rows of
  the table sorted by the \<open>created_at\<close> column. Rows with equal \<open>created_at\<close> keep the
  table's order here; the backend leaves their order open.
\<close>

definition select_order_created_at ::
  "outcome \<Rightarrow> ('r \<Rightarrow> int) \<Rightarrow> bool \<Rightarrow> 'r list \<Rightarrow> 'r list response awaited" where
  "select_order_created_at oc created_at ascending rows =
     (case oc of
        Throws \<Rightarrow> Rejected
      | Fails \<Rightarrow> Resolved Failure
      | Succeeds \<Rightarrow>
          Resolved (Success (if ascending then sort_key created_at rows
                             else rev (sort_key created_at rows))))"

definition getDestinations :: "outcome \<Rightarrow> destination_row list \<Rightarrow> destination_row list" where
  "getDestinations oc rows =
     (case select_order_created_at oc dest_created_at True rows of
        Rejected \<Rightarrow> []
      | Resolved Failure \<Rightarrow> []
      | Resolved (Success data) \<Rightarrow> data)"

definition getPackages :: "outcome \<Rightarrow> package_row list \<Rightarrow> package_row list" where
  "getPackages oc rows =
     (case select_order_created_at oc pkg_created_at True rows of
        Rejected \<Rightarrow> []
      | Resolved Failure \<Rightarrow> []
      | Resolved (Success data) \<Rightarrow> data)"

text \<open>
  \<open>theme\<close> is declared as one of \<open>'white'\<close>, \<open>'teal'\<close>, \<open>'periwinkle'\<close>; at run
  time it is the string the form's select or a stored row's \<open>color\<close> holds, and
  \<open>savePackage\<close> has a fallback for other keys, so it is a string here.
\<close>

record PackageInput =
  pi_id :: "jsstring option"
  pi_name :: jsstring
  pi_price :: jsstring
  pi_theme :: jsstring
  pi_features :: "jsstring list"

record style_bundle =
  sb_color :: jsstring
  sb_accent :: jsstring

text \<open>The own properties of the object literal \<open>THEME_MAP\<close>, in the order written.\<close>

definition THEME_MAP :: "(jsstring \<times> style_bundle) list" where
  "THEME_MAP =
     [(js ''white'', \<lparr>sb_color = js ''white'', sb_accent = js ''bg-white/5''\<rparr>),
      (js ''teal'', \<lparr>sb_color = js ''teal'', sb_accent = js ''bg-[#4fb7b3]/10 border-[#4fb7b3]/50''\<rparr>),
      (js ''periwinkle'',
         \<lparr>sb_color = js ''periwinkle'', sb_accent = js ''bg-[#637ab9]/10 border-[#637ab9]/50''\<rparr>)]"

text \<open>
  \<open>obj[key]\<close> on an object literal looks the key up among the own properties first and
  then along the prototype chain, which for a literal is \<open>Object.prototype\<close>. The names
  below are the properties \<open>Object.prototype\<close> has in a browser; each of them is a
  function (or, for \<open>__proto__\<close>, the prototype object itself), so it is truthy and has no
  property \<open>accent\<close>. Any other key gives \<open>undefined\<close>.
\<close>

definition Object_prototype_properties :: "jsstring list" where
  "Object_prototype_properties =
     map js [''constructor'', ''hasOwnProperty'', ''isPrototypeOf'', ''propertyIsEnumerable'',
             ''toLocaleString'', ''toString'', ''valueOf'', ''__proto__'',
             ''__defineGetter__'', ''__defineSetter__'', ''__lookupGetter__'',
             ''__lookupSetter__'']"

datatype property_value = Undefined | Own style_bundle | Inherited jsstring

definition get_property :: "(jsstring \<times> style_bundle) list \<Rightarrow> jsstring \<Rightarrow> property_value" where
  "get_property obj key =
     (case map_of obj key of
        Some b \<Rightarrow> Own b
      | None \<Rightarrow> if key \<in> set Object_prototype_properties then Inherited key else Undefined)"

definition truthy :: "property_value \<Rightarrow> bool" where
  "truthy v = (v \<noteq> Undefined)"

text \<open>\<open>styles.accent\<close>; \<open>None\<close> is \<open>undefined\<close>.\<close>

definition accent_of :: "property_value \<Rightarrow> jsstring option" where
  "accent_of v = (case v of Own b \<Rightarrow> Some (sb_accent b) | _ \<Rightarrow> None)"

record package_payload =
  pp_name :: jsstring
  pp_price :: jsstring
  pp_features :: "jsstring list"
  pp_color :: jsstring
  pp_accent :: "jsstring option"

datatype package_request =
    Update_eq_id jsstring package_payload
  | Insert_records "package_payload list"

definition package_payload_of :: "PackageInput \<Rightarrow> package_payload" where
  "package_payload_of pkg =
     (let styles = (if truthy (get_property THEME_MAP (pi_theme pkg))
                    then get_property THEME_MAP (pi_theme pkg)
                    else get_property THEME_MAP (js ''white''))
      in \<lparr> pp_name = pi_name pkg,
           pp_price = pi_price pkg,
           pp_features = pi_features pkg,
           pp_color = pi_theme pkg,
           pp_accent = accent_of styles \<rparr>)"

text \<open>
  \<open>savePackage\<close>: the request it sends (an update of the row with the package's id when
  the id is truthy, an insert otherwise) and the boolean it returns.
\<close>

definition savePackage :: "outcome \<Rightarrow> PackageInput \<Rightarrow> bool \<times> package_request" where
  "savePackage oc pkg =
     (let payload = package_payload_of pkg;
          request = (case pi_id pkg of
                       None \<Rightarrow> Insert_records [payload]
                     | Some i \<Rightarrow> if i \<noteq> [] then Update_eq_id i payload
                                else Insert_records [payload])
      in (case oc of Succeeds \<Rightarrow> True | Fails \<Rightarrow> False | Throws \<Rightarrow> False, request))"

definition request_payloads :: "package_request \<Rightarrow> package_payload list" where
  "request_payloads r = (case r of Update_eq_id _ p \<Rightarrow> [p] | Insert_records ps \<Rightarrow> ps)"

section \<open>components/AdminPanel.tsx\<close>

datatype save_status = Idle | Saving

record admin_panel =
  ap_isLoggedIn :: bool
  ap_username :: jsstring
  ap_password :: jsstring
  ap_error :: jsstring
  ap_isLoading :: bool
  ap_bookings :: "AdminBooking list"
  ap_users :: "User list"
  ap_destinations :: "destination_row list"
  ap_packages :: "package_row list"
  ap_editingPkg :: "PackageInput option"
  ap_isEditingPkg :: bool
  ap_pkgSaveStatus :: save_status

text \<open>
  What the four fetches of \<open>loadData\<close> resolve to (each of them is already the empty list
  on a failure).
\<close>

record fetched =
  f_bookings :: "AdminBooking list"
  f_destinations :: "destination_row list"
  f_packages :: "package_row list"
  f_users :: "User list"

definition loadData :: "fetched \<Rightarrow> admin_panel \<Rightarrow> admin_panel" where
  "loadData f st =
     st\<lparr> ap_bookings := f_bookings f,
         ap_destinations := f_destinations f,
         ap_packages := f_packages f,
         ap_users := f_users f,
         ap_isLoading := False \<rparr>"

text \<open>
  \<open>handleLogin\<close> on the panel and the browser's \<open>localStorage\<close>; the credentials are the
  ones typed into the form (\<open>username\<close>, \<open>password\<close> of the panel's state).
\<close>

definition handleLogin :: "fetched \<Rightarrow> admin_panel \<times> storage \<Rightarrow> admin_panel \<times> storage" where
  "handleLogin f s =
     (case s of (st, localStorage) \<Rightarrow>
        if checkAuth (ap_username st) (ap_password st)
        then (loadData f (st\<lparr>ap_isLoggedIn := True, ap_error := js ''''\<rparr>), login localStorage)
        else (st\<lparr>ap_error := js ''Invalid credentials''\<rparr>, localStorage))"

definition handlePkgFeaturesChange :: "jsstring \<Rightarrow> admin_panel \<Rightarrow> admin_panel" where
  "handlePkgFeaturesChange v st =
     (case ap_editingPkg st of
        None \<Rightarrow> st
      | Some editingPkg \<Rightarrow>
          st\<lparr>ap_editingPkg := Some (editingPkg\<lparr>pi_features := split newline v\<rparr>)\<rparr>)"

text \<open>
  \<open>handlePkgSave\<close>: the new state of the panel, the request sent to the backend (none when
  no package is being edited) and the alert shown, if any.
\<close>

definition handlePkgSave ::
  "outcome \<Rightarrow> fetched \<Rightarrow> admin_panel
    \<Rightarrow> admin_panel \<times> package_request option \<times> jsstring option" where
  "handlePkgSave oc f st =
     (case ap_editingPkg st of
        None \<Rightarrow> (st, None, None)
      | Some editingPkg \<Rightarrow>
          (let cleanFeatures = filter (\<lambda>x. trim x \<noteq> []) (pi_features editingPkg);
               (success, request) = savePackage oc (editingPkg\<lparr>pi_features := cleanFeatures\<rparr>)
           in if success
              then ((loadData f (st\<lparr>ap_isEditingPkg := False, ap_editingPkg := None\<rparr>))
                      \<lparr>ap_pkgSaveStatus := Idle\<rparr>,
                    Some request, None)
              else (st\<lparr>ap_pkgSaveStatus := Idle\<rparr>, Some request,
                    Some (js ''Failed to save package.''))))"

section \<open>App.tsx\<close>

datatype direction = Next | Prev

record 'a app_state =
  app_destinations :: "'a Destination_scheme list"
  app_selectedDestination :: "'a Destination_scheme option"

text \<open>\<open>Array.prototype.findIndex\<close>: the first index whose element satisfies \<open>P\<close>, or -1.\<close>

fun findIndex :: "('a \<Rightarrow> bool) \<Rightarrow> 'a list \<Rightarrow> int" where
  "findIndex P [] = - 1"
| "findIndex P (x # xs) =
     (if P x then 0 else (let i = findIndex P xs in if i = - 1 then - 1 else i + 1))"

text \<open>
  \<open>a % b\<close> on integers: the remainder has the sign of the dividend; with a zero divisor
  the result is \<open>NaN\<close>, here \<open>None\<close>.
\<close>

definition js_rem :: "int \<Rightarrow> int \<Rightarrow> int option" where
  "js_rem a b = (if b = 0 then None else Some (a smod b))"

text \<open>\<open>xs[k]\<close>: \<open>undefined\<close> (here \<open>None\<close>) when \<open>k\<close> is \<open>NaN\<close> or not an index of \<open>xs\<close>.\<close>

definition js_nth :: "'a list \<Rightarrow> int option \<Rightarrow> 'a option" where
  "js_nth xs k =
     (case k of
        None \<Rightarrow> None
      | Some i \<Rightarrow> if 0 \<le> i \<and> i < int (length xs) then Some (xs ! nat i) else None)"

definition nextIndex ::
  "direction \<Rightarrow> 'a Destination_scheme list \<Rightarrow> 'a Destination_scheme \<Rightarrow> int option" where
  "nextIndex d destinations selectedDestination =
     (let currentIndex = findIndex (\<lambda>a. dest_id a = dest_id selectedDestination) destinations
      in case d of
           Next \<Rightarrow> js_rem (currentIndex + 1) (int (length destinations))
         | Prev \<Rightarrow> js_rem (currentIndex - 1 + int (length destinations))
                     (int (length destinations)))"

definition navigateDestination :: "direction \<Rightarrow> 'a app_state \<Rightarrow> 'a app_state" where
  "navigateDestination d st =
     (case app_selectedDestination st of
        None \<Rightarrow> st
      | Some selectedDestination \<Rightarrow>
          if length (app_destinations st) = 0 then st
          else st\<lparr>app_selectedDestination :=
                    js_nth (app_destinations st)
                      (nextIndex d (app_destinations st) selectedDestination)\<rparr>)"

section \<open>Synthesized email\<close>

lemma replace_non_alnum_filter: "replace_non_alnum s = filter is_lower_alnum s"
  by (induction s) simp_all

text \<open>
  C1. For every username the synthesized email is the lower-cased username with every
  code unit outside \<open>[a-z0-9]\<close> removed, followed by \<open>@unexplore.com\<close>. Sign-up sends
  this email to the auth service and sign-in sends the identical one for the same
  username. Two usernames get the same email exactly when they normalize to the same
  string, so distinct usernames that normalize identically collide.
\<close>

theorem getEmailFromUsername_normalized:
  "getEmailFromUsername lc u = filter is_lower_alnum (lc u) @ js ''@unexplore.com''
   \<and> su_email (signUp_request lc d) = getEmailFromUsername lc (rd_username d)
   \<and> si_email (signIn_request lc (rd_username d) p) = su_email (signUp_request lc d)
   \<and> signInUser lc id (rd_username d) p
        = \<lparr> si_email = su_email (signUp_request lc d), si_password = p \<rparr>
   \<and> (u1 \<noteq> u2 \<and> filter is_lower_alnum (lc u1) = filter is_lower_alnum (lc u2)
        \<longrightarrow> getEmailFromUsername lc u1 = getEmailFromUsername lc u2)
   \<and> (getEmailFromUsername lc u1 = getEmailFromUsername lc u2
        \<longleftrightarrow> filter is_lower_alnum (lc u1) = filter is_lower_alnum (lc u2))"
  by (simp add: getEmailFromUsername_def replace_non_alnum_filter signUp_request_def
      signIn_request_def signInUser_def)

theorem getEmailFromUsername_normalized_witness:
  "js ''John.Doe'' \<noteq> js ''johndoe''
   \<and> getEmailFromUsername ascii_toLowerCase (js ''John.Doe'') = js ''johndoe@unexplore.com''
   \<and> getEmailFromUsername ascii_toLowerCase (js ''johndoe'') = js ''johndoe@unexplore.com''"
  using getEmailFromUsername_normalized
    [of ascii_toLowerCase "js ''John.Doe''" undefined undefined "js ''John.Doe''" "js ''johndoe''"]
  by (simp add: js_def ascii_toLowerCase_def is_lower_alnum_def getEmailFromUsername_def)

section \<open>Wishlist toggle\<close>

lemma toggle_rows:
  "wl_rows (snd (toggleWishlist nid Succeeds Succeeds u p t)) =
     (case filter (wl_matches u p) (wl_rows t) of
        [r] \<Rightarrow> filter (\<lambda>x. wl_id x \<noteq> wl_id r) (wl_rows t)
      | _ \<Rightarrow> wl_rows t @ [\<lparr>wl_id = nid (wl_rows t), wl_user_id = u, wl_package_id = p\<rparr>])"
  by (simp add: toggleWishlist_def wl_select_single_def wl_delete_eq_id_def wl_insert_def
      single_def Let_def split: list.splits)

lemma toggle_requests:
  "wl_requests (snd (toggleWishlist nid Succeeds Succeeds u p t)) =
     wl_requests t @
     [Select_single u p,
      case filter (wl_matches u p) (wl_rows t) of
        [r] \<Rightarrow> Delete_eq_id (wl_id r)
      | _ \<Rightarrow> Insert_row u p]"
  by (simp add: toggleWishlist_def wl_select_single_def wl_delete_eq_id_def wl_insert_def
      single_def Let_def split: list.splits)

lemma toggle_fst:
  "fst (toggleWishlist nid Succeeds Succeeds u p t) =
     (case filter (wl_matches u p) (wl_rows t) of [r] \<Rightarrow> False | _ \<Rightarrow> True)"
  by (simp add: toggleWishlist_def wl_select_single_def wl_delete_eq_id_def wl_insert_def
      single_def Let_def split: list.splits)

lemma in_wishlist_filter: "in_wishlist u p t \<longleftrightarrow> filter (wl_matches u p) (wl_rows t) \<noteq> []"
  by (simp add: in_wishlist_def list_ex_iff filter_empty_conv)

lemma filter_single_removed:
  assumes "filter P xs = [r]"
  shows "filter (\<lambda>x. f x \<noteq> f r \<and> P x) xs = []"
proof -
  have "filter (\<lambda>x. f x \<noteq> f r \<and> P x) xs = filter (\<lambda>x. f x \<noteq> f r) (filter P xs)"
    by (simp add: conj_commute)
  then show ?thesis using assms by simp
qed

lemma toggle_member_after:
  "in_wishlist u p (snd (toggleWishlist nid Succeeds Succeeds u p t))
     = fst (toggleWishlist nid Succeeds Succeeds u p t)"
proof (cases "filter (wl_matches u p) (wl_rows t)")
  case Nil
  then show ?thesis
    by (simp add: in_wishlist_filter toggle_rows toggle_fst wl_matches_def)
next
  case (Cons r rs)
  show ?thesis
  proof (cases rs)
    case Nil
    with Cons have one: "filter (wl_matches u p) (wl_rows t) = [r]" by simp
    show ?thesis
      by (simp add: in_wishlist_filter toggle_rows toggle_fst one filter_single_removed [OF one])
  next
    case (Cons r' rs')
    with \<open>filter (wl_matches u p) (wl_rows t) = r # rs\<close> show ?thesis
      by (simp add: in_wishlist_filter toggle_rows toggle_fst)
  qed
qed

text \<open>
  C2. With every read, insert and delete performed by the backend, and the second call
  starting from the table the first one left, two calls of \<open>toggleWishlist\<close> for the same
  user and package leave the membership of the pair as it was before the first call. This
  holds for every table, whatever ids the database hands out.
\<close>

theorem toggleWishlist_twice_membership:
  "in_wishlist u p (snd (toggleWishlist nid' Succeeds Succeeds u p
       (snd (toggleWishlist nid Succeeds Succeeds u p t))))
     = in_wishlist u p t"
proof -
  let ?t1 = "snd (toggleWishlist nid Succeeds Succeeds u p t)"
  let ?new = "\<lparr>wl_id = nid (wl_rows t), wl_user_id = u, wl_package_id = p\<rparr>"
  have step: "in_wishlist u p (snd (toggleWishlist nid' Succeeds Succeeds u p ?t1))
      = (case filter (wl_matches u p) (wl_rows ?t1) of [r] \<Rightarrow> False | _ \<Rightarrow> True)"
    by (simp only: toggle_member_after toggle_fst)
  show ?thesis
  proof (cases "filter (wl_matches u p) (wl_rows t)")
    case Nil
    have "wl_rows ?t1 = wl_rows t @ [?new]"
      by (simp add: toggle_rows Nil)
    then have "filter (wl_matches u p) (wl_rows ?t1) = [?new]"
      by (simp add: Nil wl_matches_def)
    with step Nil show ?thesis
      by (simp add: in_wishlist_filter)
  next
    case (Cons r rs)
    show ?thesis
    proof (cases rs)
      case Nil
      with Cons have one: "filter (wl_matches u p) (wl_rows t) = [r]" by simp
      have "wl_rows ?t1 = filter (\<lambda>x. wl_id x \<noteq> wl_id r) (wl_rows t)"
        by (simp add: toggle_rows one)
      then have "filter (wl_matches u p) (wl_rows ?t1) = []"
        by (simp add: filter_single_removed [OF one])
      with step one show ?thesis
        by (simp add: in_wishlist_filter)
    next
      case (Cons r' rs')
      with \<open>filter (wl_matches u p) (wl_rows t) = r # rs\<close>
      have many: "filter (wl_matches u p) (wl_rows t) = r # r' # rs'" by simp
      have "wl_rows ?t1 = wl_rows t @ [?new]"
        by (simp add: toggle_rows many)
      then have "filter (wl_matches u p) (wl_rows ?t1) = r # r' # rs' @ [?new]"
        by (simp add: many wl_matches_def)
      with step many show ?thesis
        by (simp add: in_wishlist_filter)
    qed
  qed
qed

theorem toggleWishlist_twice_membership_witness:
  "in_wishlist (js ''u1'') (js ''p1'')
     \<lparr>wl_rows = [\<lparr>wl_id = js ''w1'', wl_user_id = js ''u1'', wl_package_id = js ''p1''\<rparr>],
      wl_requests = []\<rparr>
   \<and> \<not> fst (toggleWishlist (\<lambda>_. js ''w2'') Succeeds Succeeds (js ''u1'') (js ''p1'')
     \<lparr>wl_rows = [\<lparr>wl_id = js ''w1'', wl_user_id = js ''u1'', wl_package_id = js ''p1''\<rparr>],
      wl_requests = []\<rparr>)
   \<and> in_wishlist (js ''u1'') (js ''p1'')
       (snd (toggleWishlist (\<lambda>_. js ''w3'') Succeeds Succeeds (js ''u1'') (js ''p1'')
         (snd (toggleWishlist (\<lambda>_. js ''w2'') Succeeds Succeeds (js ''u1'') (js ''p1'')
           \<lparr>wl_rows = [\<lparr>wl_id = js ''w1'', wl_user_id = js ''u1'',
                        wl_package_id = js ''p1''\<rparr>],
            wl_requests = []\<rparr>))))"
  using toggleWishlist_twice_membership
    [of "js ''u1''" "js ''p1''" "\<lambda>_. js ''w3''" "\<lambda>_. js ''w2''"
      "\<lparr>wl_rows = [\<lparr>wl_id = js ''w1'', wl_user_id = js ''u1'', wl_package_id = js ''p1''\<rparr>],
        wl_requests = []\<rparr>"]
  by (simp add: in_wishlist_def wl_matches_def toggle_fst)

text \<open>
  C3 does not hold as stated. The table below holds two rows for the pair, as a raced
  check-then-insert leaves them. The backend performs every request, the pair is in the
  wishlist, and yet \<open>.single()\<close> gives no data for two matching rows, so
  \<open>toggleWishlist\<close> does not delete: it inserts a third row and returns \<open>true\<close>.
\<close>

theorem toggleWishlist_duplicate_counterexample:
  "in_wishlist (js ''u1'') (js ''p1'')
     \<lparr>wl_rows = [\<lparr>wl_id = js ''w1'', wl_user_id = js ''u1'', wl_package_id = js ''p1''\<rparr>,
                 \<lparr>wl_id = js ''w2'', wl_user_id = js ''u1'', wl_package_id = js ''p1''\<rparr>],
      wl_requests = []\<rparr>
   \<and> toggleWishlist (\<lambda>_. js ''w9'') Succeeds Succeeds (js ''u1'') (js ''p1'')
     \<lparr>wl_rows = [\<lparr>wl_id = js ''w1'', wl_user_id = js ''u1'', wl_package_id = js ''p1''\<rparr>,
                 \<lparr>wl_id = js ''w2'', wl_user_id = js ''u1'', wl_package_id = js ''p1''\<rparr>],
      wl_requests = []\<rparr>
   = (True,
      \<lparr>wl_rows = [\<lparr>wl_id = js ''w1'', wl_user_id = js ''u1'', wl_package_id = js ''p1''\<rparr>,
                  \<lparr>wl_id = js ''w2'', wl_user_id = js ''u1'', wl_package_id = js ''p1''\<rparr>,
                  \<lparr>wl_id = js ''w9'', wl_user_id = js ''u1'', wl_package_id = js ''p1''\<rparr>],
       wl_requests = [Select_single (js ''u1'') (js ''p1''), Insert_row (js ''u1'') (js ''p1'')]\<rparr>)"
  by (simp add: in_wishlist_def toggleWishlist_def wl_select_single_def wl_insert_def
      single_def wl_matches_def)

text \<open>
  C3, amended. With the read and the write performed by the backend, \<open>toggleWishlist\<close>
  sends the read for the pair first and exactly one write after it, and the boolean it
  returns is the membership of the pair after the call; this holds for every table. When
  the table holds at most one row for the pair, the write is the delete of the existing
  row's id if the pair is in the wishlist, leaving no row for the pair, and the insert of a
  row for the pair if it is not.
\<close>

theorem toggleWishlist_contract:
  "fst (toggleWishlist nid Succeeds Succeeds u p t)
     = in_wishlist u p (snd (toggleWishlist nid Succeeds Succeeds u p t))
   \<and> (\<exists>w. wl_requests (snd (toggleWishlist nid Succeeds Succeeds u p t))
           = wl_requests t @ [Select_single u p, w]
        \<and> (\<exists>i. w = Delete_eq_id i) \<noteq> (w = Insert_row u p))
   \<and> (length (filter (wl_matches u p) (wl_rows t)) \<le> 1 \<longrightarrow>
        (in_wishlist u p t \<longrightarrow>
           (\<exists>row. row \<in> set (wl_rows t) \<and> wl_matches u p row
              \<and> toggleWishlist nid Succeeds Succeeds u p t
                  = (False,
                     t\<lparr>wl_rows := filter (\<lambda>x. wl_id x \<noteq> wl_id row) (wl_rows t),
                       wl_requests := wl_requests t
                          @ [Select_single u p, Delete_eq_id (wl_id row)]\<rparr>)))
        \<and> (\<not> in_wishlist u p t \<longrightarrow>
             toggleWishlist nid Succeeds Succeeds u p t
               = (True,
                  t\<lparr>wl_rows := wl_rows t
                       @ [\<lparr>wl_id = nid (wl_rows t), wl_user_id = u, wl_package_id = p\<rparr>],
                    wl_requests := wl_requests t @ [Select_single u p, Insert_row u p]\<rparr>))
        \<and> in_wishlist u p (snd (toggleWishlist nid Succeeds Succeeds u p t))
             = (\<not> in_wishlist u p t))"
proof (intro conjI impI)
  show "fst (toggleWishlist nid Succeeds Succeeds u p t)
     = in_wishlist u p (snd (toggleWishlist nid Succeeds Succeeds u p t))"
    by (simp add: toggle_member_after)
next
  show "\<exists>w. wl_requests (snd (toggleWishlist nid Succeeds Succeeds u p t))
           = wl_requests t @ [Select_single u p, w]
        \<and> (\<exists>i. w = Delete_eq_id i) \<noteq> (w = Insert_row u p)"
    by (auto simp add: toggle_requests split: list.splits)
next
  assume le: "length (filter (wl_matches u p) (wl_rows t)) \<le> 1" and mem: "in_wishlist u p t"
  from mem have "filter (wl_matches u p) (wl_rows t) \<noteq> []"
    by (simp add: in_wishlist_filter)
  with le obtain row where one: "filter (wl_matches u p) (wl_rows t) = [row]"
    by (cases "filter (wl_matches u p) (wl_rows t)") auto
  then have "row \<in> set (filter (wl_matches u p) (wl_rows t))" by simp
  then have in_t: "row \<in> set (wl_rows t)" and m: "wl_matches u p row" by simp_all
  have "toggleWishlist nid Succeeds Succeeds u p t
                  = (False,
                     t\<lparr>wl_rows := filter (\<lambda>x. wl_id x \<noteq> wl_id row) (wl_rows t),
                       wl_requests := wl_requests t
                          @ [Select_single u p, Delete_eq_id (wl_id row)]\<rparr>)"
    by (simp add: toggleWishlist_def wl_select_single_def wl_delete_eq_id_def single_def
        Let_def one)
  with in_t m show "\<exists>row. row \<in> set (wl_rows t) \<and> wl_matches u p row
              \<and> toggleWishlist nid Succeeds Succeeds u p t
                  = (False,
                     t\<lparr>wl_rows := filter (\<lambda>x. wl_id x \<noteq> wl_id row) (wl_rows t),
                       wl_requests := wl_requests t
                          @ [Select_single u p, Delete_eq_id (wl_id row)]\<rparr>)"
    by blast
next
  assume "\<not> in_wishlist u p t"
  then have none: "filter (wl_matches u p) (wl_rows t) = []"
    by (simp add: in_wishlist_filter)
  show "toggleWishlist nid Succeeds Succeeds u p t
               = (True,
                  t\<lparr>wl_rows := wl_rows t
                       @ [\<lparr>wl_id = nid (wl_rows t), wl_user_id = u, wl_package_id = p\<rparr>],
                    wl_requests := wl_requests t @ [Select_single u p, Insert_row u p]\<rparr>)"
    by (simp add: toggleWishlist_def wl_select_single_def wl_insert_def single_def
        Let_def none)
next
  assume le: "length (filter (wl_matches u p) (wl_rows t)) \<le> 1"
  show "in_wishlist u p (snd (toggleWishlist nid Succeeds Succeeds u p t))
             = (\<not> in_wishlist u p t)"
  proof (cases "filter (wl_matches u p) (wl_rows t)")
    case Nil
    then have "\<not> in_wishlist u p t"
      by (simp add: in_wishlist_filter)
    with Nil show ?thesis
      by (simp add: toggle_member_after toggle_fst)
  next
    case (Cons r rs)
    with le have one: "filter (wl_matches u p) (wl_rows t) = [r]" by simp
    then have "in_wishlist u p t"
      by (simp add: in_wishlist_filter)
    with one show ?thesis
      by (simp add: toggle_member_after toggle_fst)
  qed
qed

theorem toggleWishlist_contract_witness:
  "toggleWishlist (\<lambda>_. js ''w9'') Succeeds Succeeds (js ''u1'') (js ''p1'')
     \<lparr>wl_rows = [\<lparr>wl_id = js ''w1'', wl_user_id = js ''u1'', wl_package_id = js ''p1''\<rparr>,
                 \<lparr>wl_id = js ''w2'', wl_user_id = js ''u1'', wl_package_id = js ''p2''\<rparr>],
      wl_requests = []\<rparr>
   = (False,
      \<lparr>wl_rows = [\<lparr>wl_id = js ''w2'', wl_user_id = js ''u1'', wl_package_id = js ''p2''\<rparr>],
       wl_requests = [Select_single (js ''u1'') (js ''p1''), Delete_eq_id (js ''w1'')]\<rparr>)
   \<and> toggleWishlist (\<lambda>_. js ''w9'') Succeeds Succeeds (js ''u1'') (js ''p1'')
     \<lparr>wl_rows = [\<lparr>wl_id = js ''w2'', wl_user_id = js ''u1'', wl_package_id = js ''p2''\<rparr>],
      wl_requests = []\<rparr>
   = (True,
      \<lparr>wl_rows = [\<lparr>wl_id = js ''w2'', wl_user_id = js ''u1'', wl_package_id = js ''p2''\<rparr>,
                  \<lparr>wl_id = js ''w9'', wl_user_id = js ''u1'', wl_package_id = js ''p1''\<rparr>],
       wl_requests = [Select_single (js ''u1'') (js ''p1''), Insert_row (js ''u1'') (js ''p1'')]\<rparr>)"
  using toggleWishlist_contract
    [of "\<lambda>_. js ''w9''" "js ''u1''" "js ''p1''"
      "\<lparr>wl_rows = [\<lparr>wl_id = js ''w1'', wl_user_id = js ''u1'', wl_package_id = js ''p1''\<rparr>,
                 \<lparr>wl_id = js ''w2'', wl_user_id = js ''u1'', wl_package_id = js ''p2''\<rparr>],
        wl_requests = []\<rparr>"]
    toggleWishlist_contract
    [of "\<lambda>_. js ''w9''" "js ''u1''" "js ''p1''"
      "\<lparr>wl_rows = [\<lparr>wl_id = js ''w2'', wl_user_id = js ''u1'', wl_package_id = js ''p2''\<rparr>],
        wl_requests = []\<rparr>"]
  by (simp add: toggleWishlist_def wl_select_single_def wl_delete_eq_id_def wl_insert_def
      single_def wl_matches_def js_def)

section \<open>Booking creation\<close>

text \<open>
  C4. For every booking input (whatever fields it carries besides those of the form, a
  \<open>status\<close> included) and every optional user id: when the backend performs the insert,
  \<open>createBooking\<close> returns \<open>true\<close>, the request carries exactly one record and the table
  gains exactly that one row, whose status is \<open>'pending'\<close>; when the backend answers
  with an error, or the call throws, \<open>createBooking\<close> returns \<open>false\<close> and the table is
  unchanged.
\<close>

theorem createBooking_pending:
  "createBooking Succeeds data userId t
     = (True, t\<lparr>bk_rows := bk_rows t @ [booking_payload_of data userId],
                bk_inserts := bk_inserts t @ [[booking_payload_of data userId]]\<rparr>)
   \<and> pl_status (booking_payload_of data userId) = js ''pending''
   \<and> createBooking Fails data userId t
       = (False, t\<lparr>bk_inserts := bk_inserts t @ [[booking_payload_of data userId]]\<rparr>)
   \<and> createBooking Throws data userId t
       = (False, t\<lparr>bk_inserts := bk_inserts t @ [[booking_payload_of data userId]]\<rparr>)"
  by (simp add: createBooking_def bookings_insert_def booking_payload_of_def Let_def)

theorem createBooking_pending_witness:
  "createBooking Succeeds
     \<lparr> bk_name = js ''Asha'', bk_phone = js ''555'', bk_travelers = 2, bk_date = js ''2026-05-01'',
       bk_package = js ''Manali Escape'', bk_notes = js '''',
       ab_id = js ''b1'', ab_created_at = js ''2026-01-01'', ab_status = js ''confirmed'',
       ab_user_id = None, ab_email = None \<rparr>
     (Some (js ''u1'')) \<lparr>bk_rows = [], bk_inserts = []\<rparr>
   = (True,
      \<lparr>bk_rows = [\<lparr> pl_name = js ''Asha'', pl_phone = js ''555'', pl_travelers = 2,
                    pl_date = js ''2026-05-01'', pl_package = js ''Manali Escape'',
                    pl_notes = js '''', pl_status = js ''pending'', pl_email = js '''',
                    pl_user_id = Some (js ''u1'') \<rparr>],
       bk_inserts = [[\<lparr> pl_name = js ''Asha'', pl_phone = js ''555'', pl_travelers = 2,
                    pl_date = js ''2026-05-01'', pl_package = js ''Manali Escape'',
                    pl_notes = js '''', pl_status = js ''pending'', pl_email = js '''',
                    pl_user_id = Some (js ''u1'') \<rparr>]]\<rparr>)"
  using createBooking_pending
    [of "\<lparr> bk_name = js ''Asha'', bk_phone = js ''555'', bk_travelers = 2, bk_date = js ''2026-05-01'',
       bk_package = js ''Manali Escape'', bk_notes = js '''',
       ab_id = js ''b1'', ab_created_at = js ''2026-01-01'', ab_status = js ''confirmed'',
       ab_user_id = None, ab_email = None \<rparr>" "Some (js ''u1'')" "\<lparr>bk_rows = [], bk_inserts = []\<rparr>"]
  by (simp add: booking_payload_of_def js_def)

section \<open>Catalog lists\<close>

text \<open>
  C5. \<open>getDestinations\<close> and \<open>getPackages\<close> return the empty list when the backend
  answers with an error and when the call throws; when the backend performs the query
  they return the rows of the table ordered by \<open>created_at\<close> ascending (the same rows,
  sorted). An empty table read successfully and a failed fetch give the same result, so the
  caller cannot tell them apart.
\<close>

theorem catalog_list_empty_on_failure:
  "getDestinations Fails drows = [] \<and> getDestinations Throws drows = []
   \<and> getPackages Fails prows = [] \<and> getPackages Throws prows = []
   \<and> sorted (map dest_created_at (getDestinations Succeeds drows))
   \<and> mset (getDestinations Succeeds drows) = mset drows
   \<and> sorted (map pkg_created_at (getPackages Succeeds prows))
   \<and> mset (getPackages Succeeds prows) = mset prows
   \<and> getDestinations Succeeds [] = getDestinations Fails drows
   \<and> getDestinations Succeeds [] = getDestinations Throws drows
   \<and> getPackages Succeeds [] = getPackages Fails prows
   \<and> getPackages Succeeds [] = getPackages Throws prows"
  by (simp add: getDestinations_def getPackages_def select_order_created_at_def)

theorem catalog_list_empty_on_failure_witness:
  "getDestinations Succeeds
     [\<lparr>dest_id = js ''d2'', dest_name = js ''Spiti Valley'', dest_region = js ''Himachal'',
       dest_image = js '''', dest_season = js ''JUN - OCT'', dest_description = js '''',
       dest_created_at = 5\<rparr>,
      \<lparr>dest_id = js ''d1'', dest_name = js ''Pangong Lake'', dest_region = js ''Ladakh'',
       dest_image = js '''', dest_season = js ''MAY - SEP'', dest_description = js '''',
       dest_created_at = 3\<rparr>]
   = [\<lparr>dest_id = js ''d1'', dest_name = js ''Pangong Lake'', dest_region = js ''Ladakh'',
       dest_image = js '''', dest_season = js ''MAY - SEP'', dest_description = js '''',
       dest_created_at = 3\<rparr>,
      \<lparr>dest_id = js ''d2'', dest_name = js ''Spiti Valley'', dest_region = js ''Himachal'',
       dest_image = js '''', dest_season = js ''JUN - OCT'', dest_description = js '''',
       dest_created_at = 5\<rparr>]
   \<and> getDestinations Fails
     [\<lparr>dest_id = js ''d2'', dest_name = js ''Spiti Valley'', dest_region = js ''Himachal'',
       dest_image = js '''', dest_season = js ''JUN - OCT'', dest_description = js '''',
       dest_created_at = 5\<rparr>,
      \<lparr>dest_id = js ''d1'', dest_name = js ''Pangong Lake'', dest_region = js ''Ladakh'',
       dest_image = js '''', dest_season = js ''MAY - SEP'', dest_description = js '''',
       dest_created_at = 3\<rparr>]
   = getDestinations Succeeds []"
  using catalog_list_empty_on_failure
    [of "[\<lparr>dest_id = js ''d2'', dest_name = js ''Spiti Valley'', dest_region = js ''Himachal'',
       dest_image = js '''', dest_season = js ''JUN - OCT'', dest_description = js '''',
       dest_created_at = 5\<rparr>,
      \<lparr>dest_id = js ''d1'', dest_name = js ''Pangong Lake'', dest_region = js ''Ladakh'',
       dest_image = js '''', dest_season = js ''MAY - SEP'', dest_description = js '''',
       dest_created_at = 3\<rparr>]" "[]"]
  by (simp add: getDestinations_def select_order_created_at_def)

section \<open>Package feature list\<close>

lemma split_not_Nil: "split sep s \<noteq> []"
  by (induction s) (auto split: list.splits)

lemma join_Cons: "ls \<noteq> [] \<Longrightarrow> join sep (l # ls) = l @ sep # join sep ls"
  by (cases ls) simp_all

lemma join_split: "join sep (split sep s) = s"
proof (induction s)
  case Nil
  show ?case by simp
next
  case (Cons c cs)
  obtain l ls where sp: "split sep cs = l # ls"
    using split_not_Nil [of sep cs] by (cases "split sep cs") auto
  show ?case
  proof (cases "c = sep")
    case True
    then show ?thesis using Cons by (simp add: join_Cons split_not_Nil)
  next
    case False
    have "join sep ((c # l) # ls) = c # join sep (l # ls)"
      by (cases ls) simp_all
    with False sp Cons show ?thesis by simp
  qed
qed

lemma split_no_sep: "l \<in> set (split sep s) \<Longrightarrow> sep \<notin> set l"
proof (induction s arbitrary: l)
  case Nil
  then show ?case by simp
next
  case (Cons c cs)
  obtain l' ls where sp: "split sep cs = l' # ls"
    using split_not_Nil [of sep cs] by (cases "split sep cs") auto
  show ?case
  proof (cases "c = sep")
    case True
    with Cons show ?thesis by auto
  next
    case False
    with Cons.prems sp have "l = c # l' \<or> l \<in> set ls" by simp
    then show ?thesis
    proof
      assume "l = c # l'"
      moreover have "sep \<notin> set l'" using Cons.IH [of l'] sp by simp
      ultimately show ?thesis using False by auto
    next
      assume "l \<in> set ls"
      then show ?thesis using Cons.IH [of l] sp by simp
    qed
  qed
qed

lemma dropWhile_all_iff: "(\<forall>x \<in> set (dropWhile P s). P x) \<longleftrightarrow> (\<forall>c \<in> set s. P c)"
proof
  assume all: "\<forall>x \<in> set (dropWhile P s). P x"
  have "dropWhile P s = []"
  proof (rule ccontr)
    assume ne: "dropWhile P s \<noteq> []"
    then have "\<not> P (hd (dropWhile P s))" by (rule hd_dropWhile)
    moreover from ne have "hd (dropWhile P s) \<in> set (dropWhile P s)" by simp
    ultimately show False using all by blast
  qed
  then show "\<forall>c \<in> set s. P c" by (simp add: dropWhile_eq_Nil_conv)
next
  assume "\<forall>c \<in> set s. P c"
  then show "\<forall>x \<in> set (dropWhile P s). P x"
    using set_dropWhileD by fastforce
qed

lemma trim_empty_iff: "trim s = [] \<longleftrightarrow> (\<forall>c \<in> set s. is_white_space c)"
  by (simp add: trim_def dropWhile_eq_Nil_conv dropWhile_all_iff)

lemma map_of_THEME_MAP:
  "map_of THEME_MAP k =
     (if k = js ''white'' then Some \<lparr>sb_color = js ''white'', sb_accent = js ''bg-white/5''\<rparr>
      else if k = js ''teal''
        then Some \<lparr>sb_color = js ''teal'', sb_accent = js ''bg-[#4fb7b3]/10 border-[#4fb7b3]/50''\<rparr>
      else if k = js ''periwinkle''
        then Some \<lparr>sb_color = js ''periwinkle'',
                    sb_accent = js ''bg-[#637ab9]/10 border-[#637ab9]/50''\<rparr>
      else None)"
  by (simp add: THEME_MAP_def)

text \<open>
  C6. While a package is being edited, typing \<open>v\<close> into the features textarea and then
  saving sends a payload whose features are the lines of \<open>v\<close> (\<open>v\<close> split at every
  newline: joining the lines with newlines gives \<open>v\<close> back, and no line contains a
  newline) without the lines that are blank after trimming (the lines made of white space
  only), in the order of the input.
\<close>

theorem handlePkgSave_features:
  assumes "ap_editingPkg st = Some pkg"
  shows "(\<exists>request. fst (snd (handlePkgSave oc f (handlePkgFeaturesChange v st))) = Some request
           \<and> map pp_features (request_payloads request)
               = [filter (\<lambda>l. trim l \<noteq> []) (split newline v)])
       \<and> join newline (split newline v) = v
       \<and> (\<forall>l \<in> set (split newline v). newline \<notin> set l)
       \<and> (\<forall>l. trim l = [] \<longleftrightarrow> (\<forall>c \<in> set l. is_white_space c))
       \<and> subseq (filter (\<lambda>l. trim l \<noteq> []) (split newline v)) (split newline v)"
proof (intro conjI)
  show "\<exists>request. fst (snd (handlePkgSave oc f (handlePkgFeaturesChange v st))) = Some request
          \<and> map pp_features (request_payloads request)
              = [filter (\<lambda>l. trim l \<noteq> []) (split newline v)]"
    using assms
    by (auto simp add: handlePkgSave_def handlePkgFeaturesChange_def savePackage_def Let_def
        request_payloads_def package_payload_of_def split: option.splits outcome.splits)
  show "join newline (split newline v) = v" by (rule join_split)
  show "\<forall>l \<in> set (split newline v). newline \<notin> set l" using split_no_sep by blast
  show "\<forall>l. trim l = [] \<longleftrightarrow> (\<forall>c \<in> set l. is_white_space c)" by (simp add: trim_empty_iff)
  show "subseq (filter (\<lambda>l. trim l \<noteq> []) (split newline v)) (split newline v)" by simp
qed

text \<open>The input \<open>"A\n\nB\n"\<close> is stored as \<open>["A", "B"]\<close>.\<close>

theorem handlePkgSave_features_witness:
  "fst (snd (handlePkgSave Succeeds
        \<lparr>f_bookings = [], f_destinations = [], f_packages = [], f_users = []\<rparr>
        (handlePkgFeaturesChange (js ''A'' @ [newline, newline] @ js ''B'' @ [newline])
          \<lparr>ap_isLoggedIn = True, ap_username = js ''admin'', ap_password = js ''himalayas123'',
            ap_error = js '''', ap_isLoading = False, ap_bookings = [], ap_users = [],
            ap_destinations = [], ap_packages = [],
            ap_editingPkg = Some \<lparr>pi_id = None, pi_name = js ''Trek'', pi_price = js ''1'',
                                  pi_theme = js ''white'', pi_features = []\<rparr>,
            ap_isEditingPkg = True, ap_pkgSaveStatus = Idle\<rparr>)))
   = Some (Insert_records
       [\<lparr>pp_name = js ''Trek'', pp_price = js ''1'', pp_features = [js ''A'', js ''B''],
         pp_color = js ''white'', pp_accent = Some (js ''bg-white/5'')\<rparr>])"
  using handlePkgSave_features
    [where oc = Succeeds
      and f = "\<lparr>f_bookings = [], f_destinations = [], f_packages = [], f_users = []\<rparr>"
      and v = "js ''A'' @ [newline, newline] @ js ''B'' @ [newline]"
      and pkg = "\<lparr>pi_id = None, pi_name = js ''Trek'', pi_price = js ''1'',
                  pi_theme = js ''white'', pi_features = []\<rparr>"
      and st = "\<lparr>ap_isLoggedIn = True, ap_username = js ''admin'', ap_password = js ''himalayas123'',
            ap_error = js '''', ap_isLoading = False, ap_bookings = [], ap_users = [],
            ap_destinations = [], ap_packages = [],
            ap_editingPkg = Some \<lparr>pi_id = None, pi_name = js ''Trek'', pi_price = js ''1'',
                                  pi_theme = js ''white'', pi_features = []\<rparr>,
            ap_isEditingPkg = True, ap_pkgSaveStatus = Idle\<rparr>"]
  by (simp add: handlePkgSave_def handlePkgFeaturesChange_def savePackage_def
      package_payload_of_def get_property_def truthy_def accent_of_def map_of_THEME_MAP
      trim_def is_white_space_def newline_def js_def)

section \<open>Destination navigation\<close>

lemma findIndex_range: "- 1 \<le> findIndex P xs \<and> findIndex P xs < int (length xs)"
  by (induction xs) (auto simp: Let_def)

lemma findIndex_first:
  "i < length xs \<Longrightarrow> P (xs ! i) \<Longrightarrow> \<forall>j<i. \<not> P (xs ! j) \<Longrightarrow> findIndex P xs = int i"
proof (induction xs arbitrary: i)
  case Nil
  then show ?case by simp
next
  case (Cons x xs)
  show ?case
  proof (cases i)
    case 0
    with Cons.prems show ?thesis by simp
  next
    case (Suc k)
    with Cons.prems have "\<not> P x" by auto
    moreover have "findIndex P xs = int k"
    proof (rule Cons.IH)
      show "k < length xs" using Cons.prems Suc by simp
      show "P (xs ! k)" using Cons.prems Suc by simp
      show "\<forall>j<k. \<not> P (xs ! j)"
      proof (intro allI impI)
        fix j assume "j < k"
        then have "Suc j < i" using Suc by simp
        with Cons.prems have "\<not> P ((x # xs) ! Suc j)" by blast
        then show "\<not> P (xs ! j)" by simp
      qed
    qed
    ultimately show ?thesis using Suc by (simp add: Let_def)
  qed
qed

lemma smod_nonneg: "0 \<le> a \<Longrightarrow> 0 < b \<Longrightarrow> (a::int) smod b = a mod b"
  by (simp add: smod_int_alt_def sgn_if)

lemma nextIndex_bounds:
  assumes "ds \<noteq> []"
  shows "\<exists>k. nextIndex d ds sel = Some k \<and> 0 \<le> k \<and> k < int (length ds)"
proof -
  let ?n = "int (length ds)"
  let ?c = "findIndex (\<lambda>a. dest_id a = dest_id sel) ds"
  from assms have n: "0 < ?n" by simp
  have c: "- 1 \<le> ?c" "?c < ?n" using findIndex_range [of "\<lambda>a. dest_id a = dest_id sel" ds] by simp_all
  show ?thesis
  proof (cases d)
    case Next
    from c have "0 \<le> ?c + 1" by simp
    then have "(?c + 1) smod ?n = (?c + 1) mod ?n" using n by (rule smod_nonneg)
    moreover have "0 \<le> (?c + 1) mod ?n" "(?c + 1) mod ?n < ?n" using n by simp_all
    ultimately show ?thesis using Next n by (simp add: nextIndex_def js_rem_def)
  next
    case Prev
    show ?thesis
    proof (cases "0 \<le> ?c - 1 + ?n")
      case True
      then have "(?c - 1 + ?n) smod ?n = (?c - 1 + ?n) mod ?n" using n by (rule smod_nonneg)
      moreover have "0 \<le> (?c - 1 + ?n) mod ?n" "(?c - 1 + ?n) mod ?n < ?n" using n by simp_all
      ultimately show ?thesis using Prev n by (simp add: nextIndex_def js_rem_def)
    next
      case False
      with c n have "?c = - 1" "?n = 1" by linarith+
      then have "(?c - 1 + ?n) smod ?n = 0" by (simp add: smod_int_alt_def)
      then show ?thesis using Prev n \<open>?n = 1\<close> by (simp add: nextIndex_def js_rem_def)
    qed
  qed
qed

lemma nextIndex_found:
  assumes "i < length ds" and "dest_id (ds ! i) = dest_id sel"
    and "\<forall>j<i. dest_id (ds ! j) \<noteq> dest_id sel"
  shows "nextIndex Next ds sel = Some ((int i + 1) mod int (length ds))"
    and "nextIndex Prev ds sel = Some ((int i - 1 + int (length ds)) mod int (length ds))"
proof -
  have c: "findIndex (\<lambda>a. dest_id a = dest_id sel) ds = int i"
    using assms by (intro findIndex_first) simp_all
  from assms(1) have n: "0 < int (length ds)" by auto
  have "(int i + 1) smod int (length ds) = (int i + 1) mod int (length ds)"
    using n by (intro smod_nonneg) simp_all
  then show "nextIndex Next ds sel = Some ((int i + 1) mod int (length ds))"
    using n by (simp add: nextIndex_def js_rem_def c)
  have "0 \<le> int i - 1 + int (length ds)" using assms(1) by simp
  then have "(int i - 1 + int (length ds)) smod int (length ds)
      = (int i - 1 + int (length ds)) mod int (length ds)"
    using n by (rule smod_nonneg)
  then show "nextIndex Prev ds sel = Some ((int i - 1 + int (length ds)) mod int (length ds))"
    using n by (simp add: nextIndex_def js_rem_def c)
qed

text \<open>
  C7. Let the loaded list be non-empty, of length \<open>n\<close>, and let the selected destination
  be the one at index \<open>i\<close>: \<open>i\<close> is the position at which the list holds the selected
  destination's id (the first such position, which is the only one when ids are unique).
  Then \<open>next\<close> selects the destination at index \<open>(i + 1) mod n\<close> and \<open>prev\<close> the one at
  index \<open>(i - 1 + n) mod n\<close>, and the list is unchanged.
\<close>

theorem navigateDestination_cyclic:
  assumes "i < length (app_destinations st)"
    and "app_selectedDestination st = Some sel"
    and "dest_id (app_destinations st ! i) = dest_id sel"
    and "\<forall>j<i. dest_id (app_destinations st ! j) \<noteq> dest_id sel"
  shows "app_selectedDestination (navigateDestination Next st)
           = Some (app_destinations st
                ! nat ((int i + 1) mod int (length (app_destinations st))))
       \<and> app_selectedDestination (navigateDestination Prev st)
           = Some (app_destinations st
                ! nat ((int i - 1 + int (length (app_destinations st)))
                        mod int (length (app_destinations st))))
       \<and> app_destinations (navigateDestination Next st) = app_destinations st
       \<and> app_destinations (navigateDestination Prev st) = app_destinations st"
proof -
  let ?ds = "app_destinations st"
  from assms(1) have n: "0 < int (length ?ds)" and ne: "length ?ds \<noteq> 0" by auto
  note ni = nextIndex_found [OF assms(1) assms(3) assms(4)]
  have b1: "0 \<le> (int i + 1) mod int (length ?ds)" "(int i + 1) mod int (length ?ds) < int (length ?ds)"
    using n by simp_all
  have b2: "0 \<le> (int i - 1 + int (length ?ds)) mod int (length ?ds)"
    "(int i - 1 + int (length ?ds)) mod int (length ?ds) < int (length ?ds)"
    using n by simp_all
  show ?thesis
    using ne b1 b2 by (simp add: navigateDestination_def assms(2) ni js_nth_def)
qed

text \<open>
  In a list of three, \<open>prev\<close> from index 0 selects index 2 and \<open>next\<close> from index 2
  selects index 0.
\<close>

theorem navigateDestination_cyclic_witness:
  "app_selectedDestination (navigateDestination Prev
     \<lparr>app_destinations =
        [\<lparr>dest_id = js ''d1'', dest_name = js ''Pangong Lake'', dest_region = js ''Ladakh'',
          dest_image = js '''', dest_season = js ''MAY - SEP'', dest_description = js ''''\<rparr>,
         \<lparr>dest_id = js ''d2'', dest_name = js ''Spiti Valley'', dest_region = js ''Himachal'',
          dest_image = js '''', dest_season = js ''JUN - OCT'', dest_description = js ''''\<rparr>,
         \<lparr>dest_id = js ''d3'', dest_name = js ''Kedarnath'', dest_region = js ''Uttarakhand'',
          dest_image = js '''', dest_season = js ''MAY - NOV'', dest_description = js ''''\<rparr>],
      app_selectedDestination =
        Some \<lparr>dest_id = js ''d1'', dest_name = js ''Pangong Lake'', dest_region = js ''Ladakh'',
          dest_image = js '''', dest_season = js ''MAY - SEP'', dest_description = js ''''\<rparr>\<rparr>)
   = Some \<lparr>dest_id = js ''d3'', dest_name = js ''Kedarnath'', dest_region = js ''Uttarakhand'',
          dest_image = js '''', dest_season = js ''MAY - NOV'', dest_description = js ''''\<rparr>
   \<and> app_selectedDestination (navigateDestination Next
     \<lparr>app_destinations =
        [\<lparr>dest_id = js ''d1'', dest_name = js ''Pangong Lake'', dest_region = js ''Ladakh'',
          dest_image = js '''', dest_season = js ''MAY - SEP'', dest_description = js ''''\<rparr>,
         \<lparr>dest_id = js ''d2'', dest_name = js ''Spiti Valley'', dest_region = js ''Himachal'',
          dest_image = js '''', dest_season = js ''JUN - OCT'', dest_description = js ''''\<rparr>,
         \<lparr>dest_id = js ''d3'', dest_name = js ''Kedarnath'', dest_region = js ''Uttarakhand'',
          dest_image = js '''', dest_season = js ''MAY - NOV'', dest_description = js ''''\<rparr>],
      app_selectedDestination =
        Some \<lparr>dest_id = js ''d3'', dest_name = js ''Kedarnath'', dest_region = js ''Uttarakhand'',
          dest_image = js '''', dest_season = js ''MAY - NOV'', dest_description = js ''''\<rparr>\<rparr>)
   = Some \<lparr>dest_id = js ''d1'', dest_name = js ''Pangong Lake'', dest_region = js ''Ladakh'',
          dest_image = js '''', dest_season = js ''MAY - SEP'', dest_description = js ''''\<rparr>"
  using navigateDestination_cyclic
    [where i = 0
      and sel = "\<lparr>dest_id = js ''d1'', dest_name = js ''Pangong Lake'', dest_region = js ''Ladakh'',
          dest_image = js '''', dest_season = js ''MAY - SEP'', dest_description = js ''''\<rparr>"
      and st = "\<lparr>app_destinations =
        [\<lparr>dest_id = js ''d1'', dest_name = js ''Pangong Lake'', dest_region = js ''Ladakh'',
          dest_image = js '''', dest_season = js ''MAY - SEP'', dest_description = js ''''\<rparr>,
         \<lparr>dest_id = js ''d2'', dest_name = js ''Spiti Valley'', dest_region = js ''Himachal'',
          dest_image = js '''', dest_season = js ''JUN - OCT'', dest_description = js ''''\<rparr>,
         \<lparr>dest_id = js ''d3'', dest_name = js ''Kedarnath'', dest_region = js ''Uttarakhand'',
          dest_image = js '''', dest_season = js ''MAY - NOV'', dest_description = js ''''\<rparr>],
      app_selectedDestination =
        Some \<lparr>dest_id = js ''d1'', dest_name = js ''Pangong Lake'', dest_region = js ''Ladakh'',
          dest_image = js '''', dest_season = js ''MAY - SEP'', dest_description = js ''''\<rparr>\<rparr>"]
    navigateDestination_cyclic
    [where i = 2
      and sel = "\<lparr>dest_id = js ''d3'', dest_name = js ''Kedarnath'', dest_region = js ''Uttarakhand'',
          dest_image = js '''', dest_season = js ''MAY - NOV'', dest_description = js ''''\<rparr>"
      and st = "\<lparr>app_destinations =
        [\<lparr>dest_id = js ''d1'', dest_name = js ''Pangong Lake'', dest_region = js ''Ladakh'',
          dest_image = js '''', dest_season = js ''MAY - SEP'', dest_description = js ''''\<rparr>,
         \<lparr>dest_id = js ''d2'', dest_name = js ''Spiti Valley'', dest_region = js ''Himachal'',
          dest_image = js '''', dest_season = js ''JUN - OCT'', dest_description = js ''''\<rparr>,
         \<lparr>dest_id = js ''d3'', dest_name = js ''Kedarnath'', dest_region = js ''Uttarakhand'',
          dest_image = js '''', dest_season = js ''MAY - NOV'', dest_description = js ''''\<rparr>],
      app_selectedDestination =
        Some \<lparr>dest_id = js ''d3'', dest_name = js ''Kedarnath'', dest_region = js ''Uttarakhand'',
          dest_image = js '''', dest_season = js ''MAY - NOV'', dest_description = js ''''\<rparr>\<rparr>"]
  by (simp add: js_def less_Suc_eq numeral_2_eq_2 numeral_3_eq_3)

section \<open>Admin login\<close>

text \<open>
  C8. For every pair of credentials other than \<open>('admin', 'himalayas123')\<close>,
  \<open>checkAuth\<close> is false, and \<open>handleLogin\<close> with such credentials in the form leaves
  \<open>localStorage\<close> as it was (so the authenticated flag is not stored) and does not change
  \<open>isLoggedIn\<close>. Whenever \<open>handleLogin\<close> changes \<open>localStorage\<close> or \<open>isLoggedIn\<close>,
  \<open>checkAuth\<close> has returned true; and when it returns true the flag is stored and the panel
  is logged in.
\<close>

theorem handleLogin_rejects:
  "((u, p) \<noteq> (js ''admin'', js ''himalayas123'') \<longrightarrow> \<not> checkAuth u p)
   \<and> ((ap_username st, ap_password st) \<noteq> (js ''admin'', js ''himalayas123'')
        \<longrightarrow> snd (handleLogin f (st, localStorage)) = localStorage
          \<and> isAuthenticated (snd (handleLogin f (st, localStorage)))
              = isAuthenticated localStorage
          \<and> ap_isLoggedIn (fst (handleLogin f (st, localStorage))) = ap_isLoggedIn st)
   \<and> (snd (handleLogin f (st, localStorage)) \<noteq> localStorage
        \<or> ap_isLoggedIn (fst (handleLogin f (st, localStorage))) \<noteq> ap_isLoggedIn st
        \<longrightarrow> checkAuth (ap_username st) (ap_password st))
   \<and> (checkAuth (ap_username st) (ap_password st)
        \<longrightarrow> isAuthenticated (snd (handleLogin f (st, localStorage)))
          \<and> ap_isLoggedIn (fst (handleLogin f (st, localStorage))))"
  by (auto simp add: checkAuth_def handleLogin_def loadData_def login_def isAuthenticated_def)

theorem handleLogin_rejects_witness:
  "(js ''admin'', js ''wrong'') \<noteq> (js ''admin'', js ''himalayas123'')
   \<and> \<not> checkAuth (js ''admin'') (js ''wrong'')
   \<and> snd (handleLogin
        \<lparr>f_bookings = [], f_destinations = [], f_packages = [], f_users = []\<rparr>
        (\<lparr>ap_isLoggedIn = False, ap_username = js ''admin'', ap_password = js ''wrong'',
          ap_error = js '''', ap_isLoading = False, ap_bookings = [], ap_users = [],
          ap_destinations = [], ap_packages = [], ap_editingPkg = None,
          ap_isEditingPkg = False, ap_pkgSaveStatus = Idle\<rparr>, Map.empty)) = Map.empty
   \<and> \<not> ap_isLoggedIn (fst (handleLogin
        \<lparr>f_bookings = [], f_destinations = [], f_packages = [], f_users = []\<rparr>
        (\<lparr>ap_isLoggedIn = False, ap_username = js ''admin'', ap_password = js ''wrong'',
          ap_error = js '''', ap_isLoading = False, ap_bookings = [], ap_users = [],
          ap_destinations = [], ap_packages = [], ap_editingPkg = None,
          ap_isEditingPkg = False, ap_pkgSaveStatus = Idle\<rparr>, Map.empty)))
   \<and> isAuthenticated (snd (handleLogin
        \<lparr>f_bookings = [], f_destinations = [], f_packages = [], f_users = []\<rparr>
        (\<lparr>ap_isLoggedIn = False, ap_username = js ''admin'', ap_password = js ''himalayas123'',
          ap_error = js '''', ap_isLoading = False, ap_bookings = [], ap_users = [],
          ap_destinations = [], ap_packages = [], ap_editingPkg = None,
          ap_isEditingPkg = False, ap_pkgSaveStatus = Idle\<rparr>, Map.empty)))"
  using handleLogin_rejects
    [of "js ''admin''" "js ''wrong''"
      "\<lparr>ap_isLoggedIn = False, ap_username = js ''admin'', ap_password = js ''wrong'',
          ap_error = js '''', ap_isLoading = False, ap_bookings = [], ap_users = [],
          ap_destinations = [], ap_packages = [], ap_editingPkg = None,
          ap_isEditingPkg = False, ap_pkgSaveStatus = Idle\<rparr>"
      "\<lparr>f_bookings = [], f_destinations = [], f_packages = [], f_users = []\<rparr>" Map.empty]
    handleLogin_rejects
    [of "js ''admin''" "js ''wrong''"
      "\<lparr>ap_isLoggedIn = False, ap_username = js ''admin'', ap_password = js ''himalayas123'',
          ap_error = js '''', ap_isLoading = False, ap_bookings = [], ap_users = [],
          ap_destinations = [], ap_packages = [], ap_editingPkg = None,
          ap_isEditingPkg = False, ap_pkgSaveStatus = Idle\<rparr>"
      "\<lparr>f_bookings = [], f_destinations = [], f_packages = [], f_users = []\<rparr>" Map.empty]
  by (simp add: checkAuth_def js_def)

section \<open>Package theme\<close>

lemma payload_accent:
  "pp_accent (package_payload_of pkg) =
     (case map_of THEME_MAP (pi_theme pkg) of
        Some b \<Rightarrow> Some (sb_accent b)
      | None \<Rightarrow> if pi_theme pkg \<in> set Object_prototype_properties then None
                else Some (js ''bg-white/5''))"
  by (simp add: package_payload_of_def get_property_def truthy_def accent_of_def Let_def
      map_of_THEME_MAP split: option.splits)

text \<open>
  For every key that is not the name of a property inherited from \<open>Object.prototype\<close>
  the lookup does what the fallback is written for: the color is the submitted key, the
  accent is the key's own bundle's or, for an unknown key, the white bundle's.
\<close>

lemma savePackage_theme_other_keys:
  "pp_color (package_payload_of pkg) = pi_theme pkg
   \<and> (\<exists>i. snd (savePackage oc pkg) = Update_eq_id i (package_payload_of pkg)
        \<or> snd (savePackage oc pkg) = Insert_records [package_payload_of pkg])
   \<and> (\<forall>b. map_of THEME_MAP (pi_theme pkg) = Some b
          \<longrightarrow> pp_accent (package_payload_of pkg) = Some (sb_accent b))
   \<and> (pi_theme pkg \<notin> {js ''white'', js ''teal'', js ''periwinkle''}
        \<and> pi_theme pkg \<notin> set Object_prototype_properties
        \<longrightarrow> pp_accent (package_payload_of pkg) = Some (js ''bg-white/5''))
   \<and> (pi_theme pkg \<notin> set Object_prototype_properties
        \<longrightarrow> pp_accent (package_payload_of pkg)
              \<in> {Some (js ''bg-white/5''), Some (js ''bg-[#4fb7b3]/10 border-[#4fb7b3]/50''),
                 Some (js ''bg-[#637ab9]/10 border-[#637ab9]/50'')})"
proof (intro conjI)
  show "pp_color (package_payload_of pkg) = pi_theme pkg"
    by (simp add: package_payload_of_def Let_def)
  show "\<exists>i. snd (savePackage oc pkg) = Update_eq_id i (package_payload_of pkg)
        \<or> snd (savePackage oc pkg) = Insert_records [package_payload_of pkg]"
    by (simp add: savePackage_def Let_def split: option.splits)
  show "\<forall>b. map_of THEME_MAP (pi_theme pkg) = Some b
          \<longrightarrow> pp_accent (package_payload_of pkg) = Some (sb_accent b)"
    by (simp add: payload_accent)
  show "pi_theme pkg \<notin> {js ''white'', js ''teal'', js ''periwinkle''}
        \<and> pi_theme pkg \<notin> set Object_prototype_properties
        \<longrightarrow> pp_accent (package_payload_of pkg) = Some (js ''bg-white/5'')"
    by (simp add: payload_accent map_of_THEME_MAP)
  show "pi_theme pkg \<notin> set Object_prototype_properties
        \<longrightarrow> pp_accent (package_payload_of pkg)
              \<in> {Some (js ''bg-white/5''), Some (js ''bg-[#4fb7b3]/10 border-[#4fb7b3]/50''),
                 Some (js ''bg-[#637ab9]/10 border-[#637ab9]/50'')}"
    by (simp add: payload_accent map_of_THEME_MAP)
qed


section \<open>Navigation guard\<close>

text \<open>
  C10. \<open>navigateDestination\<close> leaves the state as it is when no destination is selected
  or the loaded list is empty. Otherwise the index it computes is a number (the remainder
  is taken modulo the list's length, which is not zero, so it is never \<open>NaN\<close>) within the
  bounds of the list, and the destination at that index becomes the selected one; this
  also holds when the selected destination's id is not in the list.
\<close>

theorem navigateDestination_guard:
  "(app_selectedDestination st = None \<or> app_destinations st = []
      \<longrightarrow> navigateDestination d st = st)
   \<and> (app_selectedDestination st = Some sel \<and> app_destinations st \<noteq> []
      \<longrightarrow> (\<exists>k. nextIndex d (app_destinations st) sel = Some k
              \<and> 0 \<le> k \<and> k < int (length (app_destinations st))
              \<and> navigateDestination d st
                  = st\<lparr>app_selectedDestination := Some (app_destinations st ! nat k)\<rparr>))"
proof (intro conjI impI)
  assume "app_selectedDestination st = None \<or> app_destinations st = []"
  then show "navigateDestination d st = st"
    by (auto simp: navigateDestination_def split: option.splits)
next
  assume a: "app_selectedDestination st = Some sel \<and> app_destinations st \<noteq> []"
  then obtain k where k: "nextIndex d (app_destinations st) sel = Some k" "0 \<le> k"
      "k < int (length (app_destinations st))"
    using nextIndex_bounds [of "app_destinations st" d sel] by blast
  with a have "navigateDestination d st
      = st\<lparr>app_selectedDestination := Some (app_destinations st ! nat k)\<rparr>"
    by (simp add: navigateDestination_def js_nth_def)
  with k show "\<exists>k. nextIndex d (app_destinations st) sel = Some k
              \<and> 0 \<le> k \<and> k < int (length (app_destinations st))
              \<and> navigateDestination d st
                  = st\<lparr>app_selectedDestination := Some (app_destinations st ! nat k)\<rparr>"
    by blast
qed

theorem navigateDestination_guard_witness:
  "navigateDestination Next
     \<lparr>app_destinations =
        [\<lparr>dest_id = js ''d1'', dest_name = js ''Pangong Lake'', dest_region = js ''Ladakh'',
          dest_image = js '''', dest_season = js ''MAY - SEP'', dest_description = js ''''\<rparr>],
      app_selectedDestination = None\<rparr>
   = \<lparr>app_destinations =
        [\<lparr>dest_id = js ''d1'', dest_name = js ''Pangong Lake'', dest_region = js ''Ladakh'',
          dest_image = js '''', dest_season = js ''MAY - SEP'', dest_description = js ''''\<rparr>],
      app_selectedDestination = None\<rparr>
   \<and> navigateDestination Prev
     \<lparr>app_destinations =
        [\<lparr>dest_id = js ''d1'', dest_name = js ''Pangong Lake'', dest_region = js ''Ladakh'',
          dest_image = js '''', dest_season = js ''MAY - SEP'', dest_description = js ''''\<rparr>],
      app_selectedDestination =
        Some \<lparr>dest_id = js ''d9'', dest_name = js ''Gone'', dest_region = js ''Ladakh'',
          dest_image = js '''', dest_season = js ''MAY - SEP'', dest_description = js ''''\<rparr>\<rparr>
   = \<lparr>app_destinations =
        [\<lparr>dest_id = js ''d1'', dest_name = js ''Pangong Lake'', dest_region = js ''Ladakh'',
          dest_image = js '''', dest_season = js ''MAY - SEP'', dest_description = js ''''\<rparr>],
      app_selectedDestination =
        Some \<lparr>dest_id = js ''d1'', dest_name = js ''Pangong Lake'', dest_region = js ''Ladakh'',
          dest_image = js '''', dest_season = js ''MAY - SEP'', dest_description = js ''''\<rparr>\<rparr>"
  using navigateDestination_guard
    [where d = Next and st = "\<lparr>app_destinations =
        [\<lparr>dest_id = js ''d1'', dest_name = js ''Pangong Lake'', dest_region = js ''Ladakh'',
          dest_image = js '''', dest_season = js ''MAY - SEP'', dest_description = js ''''\<rparr>],
      app_selectedDestination = None\<rparr>"]
    navigateDestination_guard
    [where d = Prev and st = "\<lparr>app_destinations =
        [\<lparr>dest_id = js ''d1'', dest_name = js ''Pangong Lake'', dest_region = js ''Ladakh'',
          dest_image = js '''', dest_season = js ''MAY - SEP'', dest_description = js ''''\<rparr>],
      app_selectedDestination =
        Some \<lparr>dest_id = js ''d9'', dest_name = js ''Gone'', dest_region = js ''Ladakh'',
          dest_image = js '''', dest_season = js ''MAY - SEP'', dest_description = js ''''\<rparr>\<rparr>"
      and sel = "\<lparr>dest_id = js ''d9'', dest_name = js ''Gone'', dest_region = js ''Ladakh'',
          dest_image = js '''', dest_season = js ''MAY - SEP'', dest_description = js ''''\<rparr>"]
  by (simp add: navigateDestination_def nextIndex_def js_rem_def js_nth_def js_def
      smod_int_alt_def)

end
